theory Spec2Isabelle
  imports
    Complex_Main
    "HOL-Library.Log_Nat"
    "HOL-Library.Char_ord"
    "HOL-Library.List_Lexorder"
    "HOL-Library.Sublist"
begin

section \<open>Python values used by c2cli\<close>

subsection \<open>Exceptions\<close>

text \<open>
  Every exception the modelled code can raise is a value of \<open>error\<close>; a function that can
  raise returns \<open>error + 'a\<close> with \<open>Inl\<close> for the exception. \<open>ValueError\<close> carries its
  message. \<open>OtherError\<close> stands for whatever an external collaborator (the image probe,
  a reader or writer called through the converter) may raise.
\<close>

datatype error =
    ValueError string
  | IndexError
  | KeyError
  | ZeroDivisionError
  | OverflowError
  | ImportError
  | OtherError string

text \<open>Sequencing: the first exception raised ends the computation.\<close>

definition bind_err :: "error + 'a \<Rightarrow> ('a \<Rightarrow> error + 'b) \<Rightarrow> error + 'b" where
  "bind_err m f = (case m of Inl e \<Rightarrow> Inl e | Inr v \<Rightarrow> f v)"

subsection \<open>Floats: IEEE 754 binary64 with round-to-nearest-even\<close>

text \<open>
  A Python \<open>float\<close> is a binary64 number. A finite float is modelled by the real number
  it denotes; every arithmetic operation computes the exact real result and rounds it
  with \<open>round64\<close> to the nearest number with a 53-bit significand (ties to even,
  gradual underflow below \<open>2^-1022\<close>), overflowing to an infinity from \<open>2^1024\<close> on.
  Signed zeros are identified: nothing modelled here can tell them apart.
\<close>

definition round_half_even :: "real \<Rightarrow> int" where
  "round_half_even x =
     (let f = \<lfloor>x\<rfloor>; d = x - of_int f
      in if d < 1 / 2 then f
         else if 1 / 2 < d then f + 1
         else if even f then f else f + 1)"

text \<open>\<open>ilog2 x\<close> is the binary exponent of a positive \<open>x\<close>: \<open>2^k \<le> x < 2^(k+1)\<close>.\<close>

definition ilog2 :: "real \<Rightarrow> int" where
  "ilog2 x = (if 1 \<le> x then bitlen \<lfloor>x\<rfloor> - 1 else - bitlen (\<lceil>1 / x\<rceil> - 1))"

definition pow2 :: "int \<Rightarrow> real" where
  "pow2 e = (if 0 \<le> e then 2 ^ nat e else 1 / 2 ^ nat (- e))"

definition round64 :: "real \<Rightarrow> real" where
  "round64 x =
     (if x = 0 then 0
      else let e = max (ilog2 \<bar>x\<bar> - 52) (- 1074)
           in of_int (round_half_even (x / pow2 e)) * pow2 e)"

datatype pyfloat = Fin real | PInf | NInf | NaN

definition fl :: "real \<Rightarrow> pyfloat" where
  "fl r =
     (let q = round64 r
      in if 2 ^ 1024 \<le> q then PInf else if q \<le> - (2 ^ 1024) then NInf else Fin q)"

text \<open>A real number is a float value when rounding leaves it alone.\<close>

definition representable :: "real \<Rightarrow> bool" where
  "representable r = (fl r = Fin r)"

fun fneg :: "pyfloat \<Rightarrow> pyfloat" where
  "fneg (Fin a) = Fin (- a)"
| "fneg PInf = NInf"
| "fneg NInf = PInf"
| "fneg NaN = NaN"

fun fsgn :: "pyfloat \<Rightarrow> real" where
  "fsgn (Fin a) = sgn a"
| "fsgn PInf = 1"
| "fsgn NInf = - 1"
| "fsgn NaN = 0"

definition inf_of_sign :: "real \<Rightarrow> pyfloat" where
  "inf_of_sign s = (if s = 0 then NaN else if 0 < s then PInf else NInf)"

fun fadd :: "pyfloat \<Rightarrow> pyfloat \<Rightarrow> pyfloat" where
  "fadd (Fin a) (Fin b) = fl (a + b)"
| "fadd NaN _ = NaN"
| "fadd _ NaN = NaN"
| "fadd PInf NInf = NaN"
| "fadd NInf PInf = NaN"
| "fadd PInf _ = PInf"
| "fadd NInf _ = NInf"
| "fadd _ PInf = PInf"
| "fadd _ NInf = NInf"

definition fsub :: "pyfloat \<Rightarrow> pyfloat \<Rightarrow> pyfloat" where
  "fsub a b = fadd a (fneg b)"

fun fmul :: "pyfloat \<Rightarrow> pyfloat \<Rightarrow> pyfloat" where
  "fmul (Fin a) (Fin b) = fl (a * b)"
| "fmul NaN _ = NaN"
| "fmul _ NaN = NaN"
| "fmul a b = inf_of_sign (fsgn a * fsgn b)"

text \<open>Float division raises \<open>ZeroDivisionError\<close> on a zero divisor, whatever the dividend.\<close>

fun fdiv :: "pyfloat \<Rightarrow> pyfloat \<Rightarrow> error + pyfloat" where
  "fdiv a (Fin b) =
     (if b = 0 then Inl ZeroDivisionError
      else case a of
             Fin x \<Rightarrow> Inr (fl (x / b))
           | NaN \<Rightarrow> Inr NaN
           | _ \<Rightarrow> Inr (inf_of_sign (fsgn a * sgn b)))"
| "fdiv NaN _ = Inr NaN"
| "fdiv _ NaN = Inr NaN"
| "fdiv (Fin a) _ = Inr (Fin 0)"
| "fdiv _ _ = Inr NaN"

text \<open>Comparison; every comparison with a NaN is false.\<close>

fun fle :: "pyfloat \<Rightarrow> pyfloat \<Rightarrow> bool" where
  "fle NaN _ = False"
| "fle _ NaN = False"
| "fle NInf _ = True"
| "fle _ PInf = True"
| "fle (Fin a) (Fin b) = (a \<le> b)"
| "fle _ _ = False"

text \<open>
  An \<open>int\<close> operand of a float operation is converted first; an integer too large for a
  binary64 raises \<open>OverflowError\<close>.
\<close>

definition float_of_int :: "int \<Rightarrow> error + pyfloat" where
  "float_of_int n =
     (case fl (of_int n) of Fin q \<Rightarrow> Inr (Fin q) | _ \<Rightarrow> Inl OverflowError)"

definition fdiv_int :: "pyfloat \<Rightarrow> int \<Rightarrow> error + pyfloat" where
  "fdiv_int a n = bind_err (float_of_int n) (\<lambda>b. fdiv a b)"

definition fmul_int :: "pyfloat \<Rightarrow> int \<Rightarrow> error + pyfloat" where
  "fmul_int a n = bind_err (float_of_int n) (\<lambda>b. Inr (fmul a b))"

text \<open>\<open>int(x)\<close> of a float truncates towards zero and rejects infinities and NaN.\<close>

fun int_of_float :: "pyfloat \<Rightarrow> error + int" where
  "int_of_float (Fin r) = Inr (if 0 \<le> r then \<lfloor>r\<rfloor> else \<lceil>r\<rceil>)"
| "int_of_float NaN = Inl (ValueError ''cannot convert float NaN to integer'')"
| "int_of_float _ = Inl OverflowError"

subsection \<open>Sequence indexing\<close>

text \<open>
  Subscripting a list with an integer: positions \<open>0 .. len-1\<close> read from the front,
  positions \<open>-len .. -1\<close> read from the back, every other position raises.
\<close>

definition py_index :: "'a list \<Rightarrow> int \<Rightarrow> error + 'a" where
  "py_index xs i =
     (if 0 \<le> i \<and> i < int (length xs) then Inr (xs ! nat i)
      else if i < 0 \<and> - int (length xs) \<le> i then Inr (xs ! nat (int (length xs) + i))
      else Inl IndexError)"

section \<open>models.py\<close>

record BBox =
  x_min :: pyfloat
  y_min :: pyfloat
  x_max :: pyfloat
  y_max :: pyfloat

record Annotation =
  bbox :: BBox
  category_id :: int
  category_name :: string
  difficult :: bool
  truncated :: bool
  area :: "pyfloat option"
  iscrowd :: int

record Image =
  file_name :: string
  width :: int
  height :: int
  annotations :: "Annotation list"
  image_id :: "int option"

record Category =
  id_cat :: int
  name :: string
  supercategory :: "string option"

text \<open>
  \<open>info\<close> is a free-form dictionary that is only passed through: its values stay opaque.
  The type parameter of a dataset is what its list \<open>images\<close> holds: the images
  themselves where a reader builds them one after the other, or references to image
  objects where a writer is handed a dataset it did not build.
\<close>

typedecl json_value

record 'im Dataset =
  images :: "'im list"
  categories :: "Category list"
  info :: "(string \<times> json_value) list"

definition new_Dataset :: "'im Dataset" where
  "new_Dataset = \<lparr>images = [], categories = [], info = []\<rparr>"

definition new_Image :: "string \<Rightarrow> int \<Rightarrow> int \<Rightarrow> Image" where
  "new_Image fname w h =
     \<lparr>file_name = fname, width = w, height = h, annotations = [], image_id = None\<rparr>"

definition add_annotation :: "Image \<Rightarrow> Annotation \<Rightarrow> Image" where
  "add_annotation img annotation = img\<lparr>annotations := annotations img @ [annotation]\<rparr>"

definition add_image :: "'im Dataset \<Rightarrow> 'im \<Rightarrow> 'im Dataset" where
  "add_image dataset img = dataset\<lparr>images := images dataset @ [img]\<rparr>"

definition add_category :: "'im Dataset \<Rightarrow> Category \<Rightarrow> 'im Dataset" where
  "add_category dataset category = dataset\<lparr>categories := categories dataset @ [category]\<rparr>"

text \<open>
  Image objects are mutable and a list may hold the same object at several positions. A
  \<open>store\<close> gives the current fields of every image object; \<open>dataset.images\<close> of a dataset
  handed to a writer is a list of references into the store.
\<close>

type_synonym ref = nat

type_synonym store = "ref \<Rightarrow> Image"

subsection \<open>BBox\<close>

definition to_xywh :: "BBox \<Rightarrow> pyfloat \<times> pyfloat \<times> pyfloat \<times> pyfloat" where
  "to_xywh b = (x_min b, y_min b, fsub (x_max b) (x_min b), fsub (y_max b) (y_min b))"

definition from_xywh :: "pyfloat \<Rightarrow> pyfloat \<Rightarrow> pyfloat \<Rightarrow> pyfloat \<Rightarrow> BBox" where
  "from_xywh x y w h = \<lparr>x_min = x, y_min = y, x_max = fadd x w, y_max = fadd y h\<rparr>"

definition to_yolo ::
  "BBox \<Rightarrow> int \<Rightarrow> int \<Rightarrow> error + (pyfloat \<times> pyfloat \<times> pyfloat \<times> pyfloat)" where
  "to_yolo b img_width img_height =
     (let w = fsub (x_max b) (x_min b);
          h = fsub (y_max b) (y_min b)
      in bind_err (fdiv w (Fin 2)) (\<lambda>hw.
         let x_center = fadd (x_min b) hw
         in bind_err (fdiv h (Fin 2)) (\<lambda>hh.
            let y_center = fadd (y_min b) hh
            in bind_err (fdiv_int x_center img_width) (\<lambda>r1.
               bind_err (fdiv_int y_center img_height) (\<lambda>r2.
               bind_err (fdiv_int w img_width) (\<lambda>r3.
               bind_err (fdiv_int h img_height) (\<lambda>r4.
               Inr (r1, r2, r3, r4))))))))"

definition from_yolo ::
  "pyfloat \<Rightarrow> pyfloat \<Rightarrow> pyfloat \<Rightarrow> pyfloat \<Rightarrow> int \<Rightarrow> int \<Rightarrow> error + BBox" where
  "from_yolo x_center y_center w_n h_n img_width img_height =
     bind_err (fmul_int w_n img_width) (\<lambda>w.
     bind_err (fmul_int h_n img_height) (\<lambda>h.
     bind_err (fmul_int x_center img_width) (\<lambda>cx.
     bind_err (fdiv w (Fin 2)) (\<lambda>hw.
     let x = fsub cx hw
     in bind_err (fmul_int y_center img_height) (\<lambda>cy.
        bind_err (fdiv h (Fin 2)) (\<lambda>hh.
        let y = fsub cy hh
        in Inr \<lparr>x_min = x, y_min = y, x_max = fadd x w, y_max = fadd y h\<rparr>))))))"

subsection \<open>Annotation\<close>

text \<open>
  The dataclass constructor followed by \<open>__post_init__\<close>. A keyword argument that the
  caller leaves out is \<open>None\<close> here and takes the field's default; for \<open>area\<close> the
  default is Python's \<open>None\<close> itself, so leaving it out and passing \<open>None\<close> coincide.
\<close>

definition post_init :: "Annotation \<Rightarrow> Annotation" where
  "post_init self =
     (if area self = None
      then (case to_xywh (bbox self) of (x, y, w, h) \<Rightarrow> self\<lparr>area := Some (fmul w h)\<rparr>)
      else self)"

definition new_Annotation ::
  "BBox \<Rightarrow> int \<Rightarrow> string \<Rightarrow> bool option \<Rightarrow> bool option \<Rightarrow> pyfloat option \<Rightarrow> int option
     \<Rightarrow> Annotation" where
  "new_Annotation b cid cname difficult_arg truncated_arg area_arg iscrowd_arg =
     post_init
       \<lparr>bbox = b, category_id = cid, category_name = cname,
        difficult = (case difficult_arg of None \<Rightarrow> False | Some d \<Rightarrow> d),
        truncated = (case truncated_arg of None \<Rightarrow> False | Some t \<Rightarrow> t),
        area = area_arg,
        iscrowd = (case iscrowd_arg of None \<Rightarrow> 0 | Some c \<Rightarrow> c)\<rparr>"

section \<open>formats/coco.py: COCOWriter\<close>

text \<open>
  The writer builds the dictionary \<open>coco_data\<close> and dumps it as JSON; the model stops at
  the dictionary. \<open>write\<close> assigns to \<open>image.image_id\<close>, so it takes the store and returns
  the store as the call leaves it, next to the dictionary.
\<close>

record coco_category =
  cc_id :: int
  cc_name :: string
  cc_supercategory :: "string option"

record coco_image =
  ci_id :: "int option"
  ci_file_name :: string
  ci_width :: int
  ci_height :: int

record coco_annotation =
  ca_id :: int
  ca_image_id :: "int option"
  ca_category_id :: int
  ca_bbox :: "pyfloat list"
  ca_area :: "pyfloat option"
  ca_iscrowd :: int
  ca_segmentation :: "pyfloat list list"

record coco_data =
  cd_info :: "(string \<times> json_value) list"
  cd_licenses :: "string list"
  cd_categories :: "coco_category list"
  cd_images :: "coco_image list"
  cd_annotations :: "coco_annotation list"

text \<open>\<open>if category.supercategory:\<close> holds for a string that is neither absent nor empty.\<close>

definition cat_dict :: "Category \<Rightarrow> coco_category" where
  "cat_dict category =
     \<lparr>cc_id = id_cat category, cc_name = name category,
      cc_supercategory =
        (case supercategory category of
           None \<Rightarrow> None
         | Some sc \<Rightarrow> if sc = [] then None else Some sc)\<rparr>"

definition ann_dict :: "int \<Rightarrow> Image \<Rightarrow> Annotation \<Rightarrow> coco_annotation" where
  "ann_dict annotation_id img annotation =
     (case to_xywh (bbox annotation) of
        (x, y, w, h) \<Rightarrow>
          \<lparr>ca_id = annotation_id, ca_image_id = image_id img,
           ca_category_id = category_id annotation, ca_bbox = [x, y, w, h],
           ca_area = area annotation, ca_iscrowd = iscrowd annotation,
           ca_segmentation = []\<rparr>)"

text \<open>
  The loop over \<open>image.annotations\<close>; the state is the counter and the output list. The
  loop assigns to no object, so it is given the fields of the image as they are when it
  starts.
\<close>

fun coco_write_annotations ::
  "Image \<Rightarrow> Annotation list \<Rightarrow> int \<times> coco_annotation list \<Rightarrow> int \<times> coco_annotation list"
where
  "coco_write_annotations img [] (annotation_id, out) = (annotation_id, out)"
| "coco_write_annotations img (annotation # rest) (annotation_id, out) =
     coco_write_annotations img rest
       (annotation_id + 1, out @ [ann_dict annotation_id img annotation])"

definition img_dict :: "Image \<Rightarrow> coco_image" where
  "img_dict img =
     \<lparr>ci_id = image_id img, ci_file_name = file_name img,
      ci_width = width img, ci_height = height img\<rparr>"

text \<open>\<open>if image.image_id is None: image.image_id = idx\<close>, on the object that \<open>r\<close> names.\<close>

definition assign_image_id :: "int \<Rightarrow> ref \<Rightarrow> store \<Rightarrow> store" where
  "assign_image_id idx r s =
     (if image_id (s r) = None then s(r := (s r)\<lparr>image_id := Some idx\<rparr>) else s)"

text \<open>
  The loop \<open>for idx, image in enumerate(dataset.images, start=1)\<close>; the state is the
  store, the counter and the two output lists.
\<close>

fun coco_write_images ::
  "int \<Rightarrow> ref list \<Rightarrow> store \<times> int \<times> coco_image list \<times> coco_annotation list
     \<Rightarrow> store \<times> int \<times> coco_image list \<times> coco_annotation list"
where
  "coco_write_images idx [] st = st"
| "coco_write_images idx (r # rest) (s, annotation_id, imgs, anns) =
     (let s' = assign_image_id idx r s;
          img = s' r;
          imgs' = imgs @ [img_dict img];
          (annotation_id', anns') =
             coco_write_annotations img (annotations img) (annotation_id, anns)
      in coco_write_images (idx + 1) rest (s', annotation_id', imgs', anns'))"

definition COCOWriter_write :: "store \<Rightarrow> ref Dataset \<Rightarrow> store \<times> coco_data" where
  "COCOWriter_write s dataset =
     (case coco_write_images 1 (images dataset) (s, 1, [], []) of
        (s', annotation_id, imgs, anns) \<Rightarrow>
          (s',
           \<lparr>cd_info = info dataset, cd_licenses = [],
            cd_categories = map cat_dict (categories dataset),
            cd_images = imgs, cd_annotations = anns\<rparr>))"

text \<open>
  For stating what the writer does. \<open>first_pos xs x\<close> is the 0-based position at which
  \<open>x\<close> first occurs in \<open>xs\<close>. \<open>id_after s refs r\<close> is the id of the image \<open>r\<close> after the
  writer has gone through \<open>refs\<close>: the id it had in \<open>s\<close>, or else the 1-based position of
  its first occurrence. \<open>ann_fields a\<close> lists what an annotation entry carries besides
  its two ids: category id, box as \<open>[x, y, width, height]\<close>, area, crowd flag, segmentation.
\<close>

definition first_pos :: "'a list \<Rightarrow> 'a \<Rightarrow> nat" where
  "first_pos xs x = length (takeWhile (\<lambda>y. y \<noteq> x) xs)"

definition id_after :: "store \<Rightarrow> ref list \<Rightarrow> ref \<Rightarrow> int option" where
  "id_after s refs r =
     (case image_id (s r) of
        None \<Rightarrow> Some (1 + int (first_pos refs r))
      | Some k \<Rightarrow> Some k)"

definition id_by_position :: "store \<Rightarrow> nat \<times> ref \<Rightarrow> int option" where
  "id_by_position s = (\<lambda>(i, r). case image_id (s r) of None \<Rightarrow> Some (int i) | Some k \<Rightarrow> Some k)"

type_synonym entry_fields = "int \<times> pyfloat list \<times> pyfloat option \<times> int \<times> pyfloat list list"

definition ann_fields :: "Annotation \<Rightarrow> entry_fields" where
  "ann_fields a =
     (category_id a,
      [x_min (bbox a), y_min (bbox a),
       fsub (x_max (bbox a)) (x_min (bbox a)), fsub (y_max (bbox a)) (y_min (bbox a))],
      area a, iscrowd a, [])"

definition dict_fields :: "coco_annotation \<Rightarrow> entry_fields" where
  "dict_fields c = (ca_category_id c, ca_bbox c, ca_area c, ca_iscrowd c, ca_segmentation c)"

section \<open>formats/yolo.py: YOLOWriter\<close>

text \<open>
  A label line is modelled by its five values, before the f-string prints them with six
  decimals. \<open>stem\<close> is \<open>Path(name).stem\<close>, a parameter. The writer reads the images
  through the store and contains no assignment to an object. The result is the store as
  the call leaves it, the lines of the classes file, the label files completed, and the
  exception that ended the call, if any.
\<close>

type_synonym yolo_line = "int \<times> pyfloat \<times> pyfloat \<times> pyfloat \<times> pyfloat"

fun yolo_write_annotations ::
  "Image \<Rightarrow> Annotation list \<Rightarrow> yolo_line list \<Rightarrow> error + yolo_line list" where
  "yolo_write_annotations img [] out = Inr out"
| "yolo_write_annotations img (annotation # rest) out =
     (case to_yolo (bbox annotation) (width img) (height img) of
        Inl e \<Rightarrow> Inl e
      | Inr (x_center, y_center, w, h) \<Rightarrow>
          yolo_write_annotations img rest
            (out @ [(category_id annotation, x_center, y_center, w, h)]))"

fun yolo_write_images ::
  "(string \<Rightarrow> string) \<Rightarrow> ref list \<Rightarrow> store \<times> (string \<times> yolo_line list) list
     \<Rightarrow> store \<times> (string \<times> yolo_line list) list \<times> error option" where
  "yolo_write_images stem [] (s, files) = (s, files, None)"
| "yolo_write_images stem (r # rest) (s, files) =
     (case yolo_write_annotations (s r) (annotations (s r)) [] of
        Inl e \<Rightarrow> (s, files, Some e)
      | Inr ls \<Rightarrow>
          yolo_write_images stem rest (s, files @ [(stem (file_name (s r)) @ ''.txt'', ls)]))"

definition YOLOWriter_write ::
  "(string \<Rightarrow> string) \<Rightarrow> store \<Rightarrow> ref Dataset
     \<Rightarrow> store \<times> string list \<times> (string \<times> yolo_line list) list \<times> error option" where
  "YOLOWriter_write stem s dataset =
     (let sorted_categories = sort_key id_cat (categories dataset);
          classes = map name sorted_categories
      in case yolo_write_images stem (images dataset) (s, []) of
           (s', files, err) \<Rightarrow> (s', classes, files, err))"

section \<open>formats/pascal_voc.py: PascalVOCWriter\<close>

text \<open>An element of an ElementTree: its tag, its text (possibly absent), its children.\<close>

datatype xml = Element (tag: string) (elem_text: "string option") (children: "xml list")

text \<open>
  \<open>str\<close> of an integer: its decimal digits, with a minus sign when negative. CPython
  (3.11 and later, default settings) refuses to print more than 4300 digits.
\<close>

fun str_nat :: "nat \<Rightarrow> string" where
  "str_nat n =
     (if n < 10 then [char_of (48 + n)] else str_nat (n div 10) @ [char_of (48 + n mod 10)])"

definition str_int :: "int \<Rightarrow> error + string" where
  "str_int i =
     (let ds = str_nat (nat \<bar>i\<bar>)
      in if 4300 < length ds
         then Inl (ValueError ''Exceeds the limit (4300 digits) for integer string conversion'')
         else Inr (if i < 0 then CHR ''-'' # ds else ds))"

definition leaf :: "string \<Rightarrow> string \<Rightarrow> xml" where
  "leaf t s = Element t (Some s) []"

text \<open>The text \<open>str(int(v))\<close> of a corner coordinate.\<close>

definition coord_text :: "pyfloat \<Rightarrow> error + string" where
  "coord_text v = bind_err (int_of_float v) str_int"

definition voc_object :: "Annotation \<Rightarrow> error + xml" where
  "voc_object ann =
     bind_err (coord_text (x_min (bbox ann))) (\<lambda>xmin.
     bind_err (coord_text (y_min (bbox ann))) (\<lambda>ymin.
     bind_err (coord_text (x_max (bbox ann))) (\<lambda>xmax.
     bind_err (coord_text (y_max (bbox ann))) (\<lambda>ymax.
     Inr (Element ''object'' None
       [leaf ''name'' (category_name ann),
        leaf ''pose'' ''Unspecified'',
        leaf ''truncated'' (if truncated ann then ''1'' else ''0''),
        leaf ''difficult'' (if difficult ann then ''1'' else ''0''),
        Element ''bndbox'' None
          [leaf ''xmin'' xmin, leaf ''ymin'' ymin, leaf ''xmax'' xmax, leaf ''ymax'' ymax]])))))"

fun voc_objects :: "Annotation list \<Rightarrow> xml list \<Rightarrow> error + xml list" where
  "voc_objects [] out = Inr out"
| "voc_objects (ann # rest) out =
     (case voc_object ann of Inl e \<Rightarrow> Inl e | Inr obj \<Rightarrow> voc_objects rest (out @ [obj]))"

definition voc_annotation :: "Image \<Rightarrow> error + xml" where
  "voc_annotation img =
     bind_err (str_int (width img)) (\<lambda>wt.
     bind_err (str_int (height img)) (\<lambda>ht.
     bind_err
       (voc_objects (annotations img)
          [leaf ''folder'' ''images'',
           leaf ''filename'' (file_name img),
           leaf ''path'' (file_name img),
           Element ''source'' None [leaf ''database'' ''Unknown''],
           Element ''size'' None [leaf ''width'' wt, leaf ''height'' ht, leaf ''depth'' ''3''],
           leaf ''segmented'' ''0''])
       (\<lambda>cs. Inr (Element ''annotation'' None cs))))"

fun voc_write_images ::
  "(string \<Rightarrow> string) \<Rightarrow> ref list \<Rightarrow> store \<times> (string \<times> xml) list
     \<Rightarrow> store \<times> (string \<times> xml) list \<times> error option" where
  "voc_write_images stem [] (s, files) = (s, files, None)"
| "voc_write_images stem (r # rest) (s, files) =
     (case voc_annotation (s r) of
        Inl e \<Rightarrow> (s, files, Some e)
      | Inr tree \<Rightarrow>
          voc_write_images stem rest (s, files @ [(stem (file_name (s r)) @ ''.xml'', tree)]))"

definition PascalVOCWriter_write ::
  "(string \<Rightarrow> string) \<Rightarrow> store \<Rightarrow> ref Dataset
     \<Rightarrow> store \<times> (string \<times> xml) list \<times> error option" where
  "PascalVOCWriter_write stem s dataset = voc_write_images stem (images dataset) (s, [])"

section \<open>Strings\<close>

text \<open>
  A Python string is modelled by the list of its characters, for the code points up to
  U+00FF; among those, \<open>str.strip\<close> and \<open>str.split\<close> treat exactly the following as
  whitespace.
\<close>

definition is_space :: "char \<Rightarrow> bool" where
  "is_space c = (of_char c \<in> {9, 10, 11, 12, 13, 28, 29, 30, 31, 32, 133, 160 :: nat})"

definition str_strip :: "string \<Rightarrow> string" where
  "str_strip s = rev (dropWhile is_space (rev (dropWhile is_space s)))"

function str_split :: "string \<Rightarrow> string list" where
  "str_split s =
     (case dropWhile is_space s of
        [] \<Rightarrow> []
      | c # cs \<Rightarrow>
          (c # takeWhile (\<lambda>d. \<not> is_space d) cs) # str_split (dropWhile (\<lambda>d. \<not> is_space d) cs))"
  by pat_completeness auto
termination
proof (relation "measure length")
  fix s :: string and c cs
  assume "dropWhile is_space s = c # cs"
  then have "length cs < length s"
    using length_dropWhile_le[of is_space s] by simp
  moreover have "length (dropWhile (\<lambda>d. \<not> is_space d) cs) \<le> length cs"
    by (rule length_dropWhile_le)
  ultimately show "(dropWhile (\<lambda>d. \<not> is_space d) cs, s) \<in> measure length"
    by simp
qed simp

declare str_split.simps [simp del]

subsection \<open>The builtins \<open>int\<close> and \<open>float\<close> on strings\<close>

text \<open>
  The readers take the two conversions as parameters \<open>int_of\<close> and \<open>float_of\<close>. The
  functions \<open>py_int\<close> and \<open>py_float\<close> below model the builtins on decimal literals:
  surrounding whitespace, a sign, digits with single underscores between them, and for
  floats a fraction, an exponent, \<open>inf\<close>, \<open>infinity\<close> and \<open>nan\<close>. \<open>int\<close> refuses a string
  of more than 4300 digits (CPython 3.11 and later, default settings). The message of the
  \<open>ValueError\<close> quotes the string without the escapes of \<open>repr\<close>.
\<close>

definition is_digit :: "char \<Rightarrow> bool" where
  "is_digit c = (48 \<le> (of_char c :: nat) \<and> (of_char c :: nat) \<le> 57)"

definition digit_val :: "char \<Rightarrow> nat" where
  "digit_val c = of_char c - 48"

fun dec_digits :: "nat \<Rightarrow> string \<Rightarrow> nat option" where
  "dec_digits acc [] = Some acc"
| "dec_digits acc [c] = (if is_digit c then Some (10 * acc + digit_val c) else None)"
| "dec_digits acc (c # d # cs) =
     (if is_digit c then dec_digits (10 * acc + digit_val c) (d # cs)
      else if c = CHR ''_'' \<and> is_digit d then dec_digits acc (d # cs)
      else None)"

definition dec_nat :: "string \<Rightarrow> nat option" where
  "dec_nat s = (case s of [] \<Rightarrow> None | c # cs \<Rightarrow> if is_digit c then dec_digits 0 s else None)"

definition dec_int :: "string \<Rightarrow> int option" where
  "dec_int s =
     (case s of
        [] \<Rightarrow> None
      | c # cs \<Rightarrow>
          if c = CHR ''-'' then map_option (\<lambda>n. - int n) (dec_nat cs)
          else if c = CHR ''+'' then map_option int (dec_nat cs)
          else map_option int (dec_nat s))"

definition quoted :: "string \<Rightarrow> string" where
  "quoted s = CHR 0x27 # s @ [CHR 0x27]"

definition py_int :: "string \<Rightarrow> error + int" where
  "py_int s =
     (case dec_int (str_strip s) of
        None \<Rightarrow> Inl (ValueError (''invalid literal for int() with base 10: '' @ quoted s))
      | Some i \<Rightarrow>
          if 4300 < length (filter is_digit s)
          then Inl (ValueError ''Exceeds the limit (4300 digits) for integer string conversion'')
          else Inr i)"

definition pow10 :: "int \<Rightarrow> real" where
  "pow10 e = (if 0 \<le> e then 10 ^ nat e else 1 / 10 ^ nat (- e))"

definition lower :: "char \<Rightarrow> char" where
  "lower c =
     (if 65 \<le> (of_char c :: nat) \<and> (of_char c :: nat) \<le> 90 then char_of (of_char c + 32 :: nat)
      else c)"

text \<open>The digits before and after the point: at least one of the two parts has digits.\<close>

definition dec_mantissa :: "string \<Rightarrow> real option" where
  "dec_mantissa m =
     (let ip = takeWhile (\<lambda>c. c \<noteq> CHR ''.'') m;
          fp = dropWhile (\<lambda>c. c \<noteq> CHR ''.'') m
      in if fp = [] then map_option real (dec_nat ip)
         else let fd = tl fp
              in if ip = [] \<and> fd = [] then None
                 else case (if ip = [] then Some 0 else dec_nat ip,
                            if fd = [] then Some 0 else dec_nat fd) of
                        (Some i, Some f) \<Rightarrow>
                          Some (real i + real f / 10 ^ length (filter is_digit fd))
                      | _ \<Rightarrow> None)"

definition dec_number :: "string \<Rightarrow> real option" where
  "dec_number s =
     (let m = takeWhile (\<lambda>c. lower c \<noteq> CHR ''e'') s;
          ep = dropWhile (\<lambda>c. lower c \<noteq> CHR ''e'') s
      in case (dec_mantissa m, if ep = [] then Some 0 else dec_int (tl ep)) of
           (Some v, Some e) \<Rightarrow> Some (v * pow10 e)
         | _ \<Rightarrow> None)"

definition unsigned_float :: "string \<Rightarrow> pyfloat option" where
  "unsigned_float s =
     (if map lower s = ''inf'' \<or> map lower s = ''infinity'' then Some PInf
      else if map lower s = ''nan'' then Some NaN
      else map_option fl (dec_number s))"

definition py_float :: "string \<Rightarrow> error + pyfloat" where
  "py_float s =
     (let t = str_strip s;
          r = (case t of
                 [] \<Rightarrow> None
               | c # cs \<Rightarrow>
                   if c = CHR ''-'' then map_option fneg (unsigned_float cs)
                   else if c = CHR ''+'' then unsigned_float cs
                   else unsigned_float t)
      in case r of
           None \<Rightarrow> Inl (ValueError (''could not convert string to float: '' @ quoted s))
         | Some v \<Rightarrow> Inr v)"

section \<open>formats/yolo.py: YOLOReader\<close>

text \<open>
  The file system is a parameter of the reader: \<open>classes_lines\<close> are the lines of the
  classes file, \<open>label_files\<close> lists, in the order of \<open>sorted(labels_dir.glob("*.txt"))\<close>,
  the stem and the lines of every label file, \<open>exists\<close> tells whether a file name exists in
  the image directory, and \<open>image_size\<close> is the probe for the pixel size of an image
  (\<open>ImportError\<close> when the imaging library is missing).
\<close>

text \<open>One line of a label file: the annotation it yields, none when it is skipped.\<close>

definition yolo_read_line ::
  "(string \<Rightarrow> error + int) \<Rightarrow> (string \<Rightarrow> error + pyfloat) \<Rightarrow> string list \<Rightarrow> int \<Rightarrow> int
     \<Rightarrow> string \<Rightarrow> error + Annotation option" where
  "yolo_read_line int_of float_of class_names w_img h_img line0 =
     (let line = str_strip line0
      in if line = [] then Inr None
         else let parts = str_split line
              in if length parts \<noteq> 5 then Inr None
                 else
                   bind_err (int_of (parts ! 0)) (\<lambda>class_id.
                   bind_err (float_of (parts ! 1)) (\<lambda>x_center.
                   bind_err (float_of (parts ! 2)) (\<lambda>y_center.
                   bind_err (float_of (parts ! 3)) (\<lambda>w.
                   bind_err (float_of (parts ! 4)) (\<lambda>h.
                   bind_err (from_yolo x_center y_center w h w_img h_img) (\<lambda>b.
                   bind_err
                     (if class_id < int (length class_names) then py_index class_names class_id
                      else Inr ''unknown'') (\<lambda>cname.
                   Inr (Some (new_Annotation b class_id cname None None None None))))))))))"

fun yolo_read_lines ::
  "(string \<Rightarrow> error + int) \<Rightarrow> (string \<Rightarrow> error + pyfloat) \<Rightarrow> string list \<Rightarrow> string list
     \<Rightarrow> Image \<Rightarrow> error + Image" where
  "yolo_read_lines int_of float_of class_names [] img = Inr img"
| "yolo_read_lines int_of float_of class_names (line # rest) img =
     (case yolo_read_line int_of float_of class_names (width img) (height img) line of
        Inl e \<Rightarrow> Inl e
      | Inr None \<Rightarrow> yolo_read_lines int_of float_of class_names rest img
      | Inr (Some annotation) \<Rightarrow>
          yolo_read_lines int_of float_of class_names rest (add_annotation img annotation))"

definition find_image :: "(string \<Rightarrow> bool) \<Rightarrow> string \<Rightarrow> string \<Rightarrow> string option" where
  "find_image exists stem image_ext =
     (if exists (stem @ image_ext) then Some (stem @ image_ext)
      else case filter exists
                  (map (\<lambda>ext. stem @ ext)
                     [''.jpg'', ''.jpeg'', ''.png'', ''.JPG'', ''.JPEG'', ''.PNG'']) of
             [] \<Rightarrow> None
           | image_name # _ \<Rightarrow> Some image_name)"

fun yolo_read_label_files ::
  "(string \<Rightarrow> error + int) \<Rightarrow> (string \<Rightarrow> error + pyfloat) \<Rightarrow> (string \<Rightarrow> bool)
     \<Rightarrow> (string \<Rightarrow> error + int \<times> int) \<Rightarrow> string \<Rightarrow> string list
     \<Rightarrow> (string \<times> string list) list \<Rightarrow> Image Dataset \<Rightarrow> error + Image Dataset" where
  "yolo_read_label_files int_of float_of exists image_size image_ext class_names [] dataset =
     Inr dataset"
| "yolo_read_label_files int_of float_of exists image_size image_ext class_names
     ((stem, lines) # rest) dataset =
     (case find_image exists stem image_ext of
        None \<Rightarrow>
          yolo_read_label_files int_of float_of exists image_size image_ext class_names rest dataset
      | Some image_name \<Rightarrow>
          (case image_size image_name of
             Inl e \<Rightarrow>
               if e = ImportError
               then yolo_read_label_files int_of float_of exists image_size image_ext class_names
                      rest dataset
               else Inl e
           | Inr (w, h) \<Rightarrow>
               (case yolo_read_lines int_of float_of class_names lines (new_Image image_name w h) of
                  Inl e \<Rightarrow> Inl e
                | Inr img \<Rightarrow>
                    yolo_read_label_files int_of float_of exists image_size image_ext class_names
                      rest (add_image dataset img))))"

definition YOLOReader_read ::
  "(string \<Rightarrow> error + int) \<Rightarrow> (string \<Rightarrow> error + pyfloat) \<Rightarrow> (string \<Rightarrow> bool)
     \<Rightarrow> (string \<Rightarrow> error + int \<times> int) \<Rightarrow> string list \<Rightarrow> (string \<times> string list) list
     \<Rightarrow> string \<Rightarrow> error + Image Dataset" where
  "YOLOReader_read int_of float_of exists image_size classes_lines label_files image_ext =
     (let class_names = map str_strip (filter (\<lambda>line. str_strip line \<noteq> []) classes_lines);
          dataset =
            foldl (\<lambda>ds (idx, n). add_category ds \<lparr>id_cat = int idx, name = n, supercategory = None\<rparr>)
              new_Dataset (enumerate 0 class_names)
      in yolo_read_label_files int_of float_of exists image_size image_ext class_names
           label_files dataset)"

text \<open>
  For stating what the reader does with a label file: whether a line splits into exactly
  five tokens, and the annotation a line yields, if it yields one.
\<close>

definition five_tokens :: "string \<Rightarrow> bool" where
  "five_tokens line = (length (str_split (str_strip line)) = 5)"

definition line_annotation ::
  "(string \<Rightarrow> error + int) \<Rightarrow> (string \<Rightarrow> error + pyfloat) \<Rightarrow> string list \<Rightarrow> int \<Rightarrow> int
     \<Rightarrow> string \<Rightarrow> Annotation option" where
  "line_annotation int_of float_of class_names w_img h_img line =
     (case yolo_read_line int_of float_of class_names w_img h_img line of
        Inl e \<Rightarrow> None
      | Inr r \<Rightarrow> r)"

section \<open>formats/pascal_voc.py: PascalVOCReader\<close>
















section \<open>converter.py: Converter\<close>

text \<open>
  The three readers and the three writers are parameters, and so is the type \<open>'d\<close> of what
  a reader hands over to a writer. Readers and writers act on the world \<open>'w\<close>: the files
  and the objects of the program. A reader returns a dataset or raises; a writer returns
  the exception it raised, if any; both return the world as they leave it.
  \<open>default_classes_file\<close> is \<open>Path(target_path).parent / "classes.txt"\<close>. The keyword
  arguments are a dictionary from names to path strings.
\<close>

record ('d, 'w) readers =
  coco_reader :: "string \<Rightarrow> 'w \<Rightarrow> (error + 'd) \<times> 'w"
  yolo_reader :: "string \<Rightarrow> string \<Rightarrow> string \<Rightarrow> string \<Rightarrow> 'w \<Rightarrow> (error + 'd) \<times> 'w"
  voc_reader :: "string \<Rightarrow> 'w \<Rightarrow> (error + 'd) \<times> 'w"

record ('d, 'w) writers =
  coco_writer :: "'d \<Rightarrow> string \<Rightarrow> 'w \<Rightarrow> error option \<times> 'w"
  yolo_writer :: "'d \<Rightarrow> string \<Rightarrow> string \<Rightarrow> 'w \<Rightarrow> error option \<times> 'w"
  voc_writer :: "'d \<Rightarrow> string \<Rightarrow> 'w \<Rightarrow> error option \<times> 'w"
  default_classes_file :: "string \<Rightarrow> string"

text \<open>The keys of \<open>self.readers\<close> and of \<open>self.writers\<close>, in insertion order.\<close>

definition format_keys :: "string list" where
  "format_keys = [''coco'', ''yolo'', ''voc'']"

text \<open>How an f-string prints a list of plain strings: \<open>['coco', 'yolo', 'voc']\<close>.\<close>

fun join_comma :: "string list \<Rightarrow> string" where
  "join_comma [] = []"
| "join_comma [k] = quoted k"
| "join_comma (k # ks) = quoted k @ '', '' @ join_comma ks"

definition unsupported_message :: "string \<Rightarrow> string" where
  "unsupported_message format_type =
     ''Unsupported format: '' @ format_type @ ''. Supported formats: ''
       @ ''['' @ join_comma format_keys @ '']''"

text \<open>\<open>not v\<close> for the result of \<open>kwargs.get\<close>: absent or the empty string.\<close>

definition falsy :: "string option \<Rightarrow> bool" where
  "falsy v = (case v of None \<Rightarrow> True | Some p \<Rightarrow> p = [])"

definition Converter_read ::
  "('d, 'w) readers \<Rightarrow> string \<Rightarrow> string \<Rightarrow> (string \<rightharpoonup> string) \<Rightarrow> 'w \<Rightarrow> (error + 'd) \<times> 'w" where
  "Converter_read rs format_type source_path kwargs world =
     (if format_type \<notin> set format_keys
      then (Inl (ValueError (unsupported_message format_type)), world)
      else if format_type = ''coco'' then coco_reader rs source_path world
      else if format_type = ''yolo'' then
        (if falsy (kwargs ''images_dir'') \<or> falsy (kwargs ''classes_file'')
         then (Inl (ValueError
                 ''YOLO format requires 'images_dir' and 'classes_file' parameters''), world)
         else yolo_reader rs source_path
                (case kwargs ''images_dir'' of None \<Rightarrow> [] | Some p \<Rightarrow> p)
                (case kwargs ''classes_file'' of None \<Rightarrow> [] | Some p \<Rightarrow> p)
                (case kwargs ''image_ext'' of None \<Rightarrow> ''.jpg'' | Some ext \<Rightarrow> ext)
                world)
      else if format_type = ''voc'' then voc_reader rs source_path world
      else (Inl (ValueError (''Format '' @ format_type @ '' not implemented'')), world))"

definition Converter_write ::
  "('d, 'w) writers \<Rightarrow> string \<Rightarrow> 'd \<Rightarrow> string \<Rightarrow> (string \<rightharpoonup> string) \<Rightarrow> 'w
     \<Rightarrow> error option \<times> 'w" where
  "Converter_write ws format_type dataset target_path kwargs world =
     (if format_type \<notin> set format_keys
      then (Some (ValueError (unsupported_message format_type)), world)
      else if format_type = ''coco'' then coco_writer ws dataset target_path world
      else if format_type = ''yolo'' then
        yolo_writer ws dataset target_path
          (if falsy (kwargs ''output_classes_file'') then default_classes_file ws target_path
           else (case kwargs ''output_classes_file'' of None \<Rightarrow> [] | Some p \<Rightarrow> p))
          world
      else if format_type = ''voc'' then voc_writer ws dataset target_path world
      else (Some (ValueError (''Format '' @ format_type @ '' not implemented'')), world))"

definition Converter_convert ::
  "('d, 'w) readers \<Rightarrow> ('d, 'w) writers \<Rightarrow> string \<Rightarrow> string \<Rightarrow> string \<Rightarrow> string
     \<Rightarrow> (string \<rightharpoonup> string) \<Rightarrow> 'w \<Rightarrow> (error + 'd) \<times> 'w" where
  "Converter_convert rs ws source_format target_format source_path target_path kwargs world =
     (case Converter_read rs source_format source_path kwargs world of
        (Inl e, world') \<Rightarrow> (Inl e, world')
      | (Inr dataset, world') \<Rightarrow>
          (case Converter_write ws target_format dataset target_path kwargs world' of
             (Some e, world'') \<Rightarrow> (Inl e, world'')
           | (None, world'') \<Rightarrow> (Inr dataset, world'')))"

section \<open>Example inputs\<close>

text \<open>
  The annotation of the example of the specification (class "dog" at corners (10,20) and
  (50,80)), a store with two image objects, and a store whose images all lack an id.
\<close>

definition example_annotation :: Annotation where
  "example_annotation =
     new_Annotation \<lparr>x_min = Fin 10, y_min = Fin 20, x_max = Fin 50, y_max = Fin 80\<rparr>
       0 ''dog'' None None None None"

definition example_store :: store where
  "example_store r =
     (if r = 0 then (new_Image ''cat.jpg'' 100 200)\<lparr>annotations := [example_annotation]\<rparr>
      else (new_Image ''other.jpg'' 10 10)\<lparr>image_id := Some 7\<rparr>)"

definition blank_store :: store where
  "blank_store r = new_Image ''a.jpg'' 1 1"



section \<open>Properties of the data model\<close>

subsection \<open>Evaluating the float model\<close>

lemmas float_eval =
  round64_def ilog2_def pow2_def round_half_even_def compute_bitlen Let_def fl_def

lemma fsub_Fin: "fsub (Fin a) (Fin b) = fl (a - b)"
  by (simp add: fsub_def)

subsection \<open>Annotation construction\<close>

text \<open>
  C8. An Annotation constructed without an area gets the product of its box's width
  \<open>x_max - x_min\<close> and height \<open>y_max - y_min\<close> (in float arithmetic); an explicit area is
  kept; after construction the area is never \<open>None\<close>; \<open>iscrowd\<close> is 0 when not supplied.
\<close>

theorem Annotation_area_default:
  "area (new_Annotation b cid cname d t None c) =
     Some (fmul (fsub (x_max b) (x_min b)) (fsub (y_max b) (y_min b)))
   \<and> area (new_Annotation b cid cname d t (Some a) c) = Some a
   \<and> area (new_Annotation b cid cname d t ar c) \<noteq> None
   \<and> iscrowd (new_Annotation b cid cname d t ar None) = 0
   \<and> iscrowd (new_Annotation b cid cname d t ar (Some k)) = k"
  by (cases ar) (simp_all add: new_Annotation_def post_init_def to_xywh_def)

subsection \<open>Corner and corner+size forms\<close>

lemma to_xywh_from_xywh_corner:
  "fst (to_xywh (from_xywh x y w h)) = x \<and> fst (snd (to_xywh (from_xywh x y w h))) = y"
  by (simp add: to_xywh_def from_xywh_def)

text \<open>
  C1 (as stated). For all floats \<open>x, y, w, h\<close> with \<open>w \<ge> 0\<close> and \<open>h \<ge> 0\<close>,
  \<open>to_xywh (from_xywh x y w h)\<close> is exactly \<open>(x, y, w, h)\<close>. This fails: at
  \<open>x = 2^53\<close>, \<open>w = 1\<close> the sum \<open>x + w\<close> rounds back to \<open>2^53\<close> and the width
  returned is \<open>0\<close>.
\<close>

theorem to_xywh_from_xywh_counterexample:
  "representable (2 ^ 53) \<and> representable 1 \<and> representable 0
   \<and> fle (Fin 0) (Fin 1) \<and> fle (Fin 0) (Fin 0)
   \<and> to_xywh (from_xywh (Fin (2 ^ 53)) (Fin 0) (Fin 1) (Fin 0)) = (Fin (2 ^ 53), Fin 0, Fin 0, Fin 0)
   \<and> to_xywh (from_xywh (Fin (2 ^ 53)) (Fin 0) (Fin 1) (Fin 0)) \<noteq> (Fin (2 ^ 53), Fin 0, Fin 1, Fin 0)"
  by (simp add: representable_def to_xywh_def from_xywh_def fsub_Fin float_eval)

text \<open>
  C1 (amended). For finite floats \<open>x, y, w, h\<close> whose sums \<open>x + w\<close> and \<open>y + h\<close> are
  themselves float values (the two additions neither round nor overflow),
  \<open>to_xywh (from_xywh x y w h)\<close> is exactly \<open>(x, y, w, h)\<close>.
\<close>

theorem to_xywh_from_xywh_exact:
  assumes "representable w" and "representable h"
    and "representable (x + w)" and "representable (y + h)"
  shows "to_xywh (from_xywh (Fin x) (Fin y) (Fin w) (Fin h)) = (Fin x, Fin y, Fin w, Fin h)"
  using assms by (simp add: representable_def to_xywh_def from_xywh_def fsub_Fin)

theorem to_xywh_from_xywh_exact_witness:
  "representable 40 \<and> representable 60 \<and> representable (10 + 40) \<and> representable (20 + 60)
   \<and> to_xywh (from_xywh (Fin 10) (Fin 20) (Fin 40) (Fin 60)) = (Fin 10, Fin 20, Fin 40, Fin 60)"
proof -
  have r: "representable 40" "representable 60" "representable (10 + 40)" "representable (20 + 60)"
    by (simp_all add: representable_def float_eval)
  from to_xywh_from_xywh_exact[OF r] r show ?thesis by simp
qed

section \<open>Properties of the COCO writer\<close>

lemma ann_dict_simps [simp]:
  "ca_id (ann_dict k img a) = k"
  "ca_image_id (ann_dict k img a) = image_id img"
  "dict_fields (ann_dict k img a) = ann_fields a"
  by (simp_all add: ann_dict_def to_xywh_def dict_fields_def ann_fields_def)

lemma cwa_counter:
  "fst (coco_write_annotations img as (k, out)) = k + int (length as)"
  by (induction as arbitrary: k out) simp_all

lemma cwa_ids:
  "map ca_id (snd (coco_write_annotations img as (k, out))) =
     map ca_id out @ map (\<lambda>j. k + int j) [0..<length as]"
proof (induction as arbitrary: k out)
  case Nil
  then show ?case by simp
next
  case (Cons a as)
  show ?case
    by (simp add: Cons.IH map_upt_Suc add.assoc del: upt_Suc)
qed

lemma cwa_fields:
  "map dict_fields (snd (coco_write_annotations img as (k, out))) =
     map dict_fields out @ map ann_fields as"
  by (induction as arbitrary: k out) simp_all

lemma cwa_image_id:
  "map ca_image_id (snd (coco_write_annotations img as (k, out))) =
     map ca_image_id out @ replicate (length as) (image_id img)"
  by (induction as arbitrary: k out) (simp_all add: replicate_append_same)

lemma first_pos_Cons:
  "first_pos (x # xs) y = (if x = y then 0 else Suc (first_pos xs y))"
  by (simp add: first_pos_def)

lemma first_pos_distinct:
  "distinct xs \<Longrightarrow> map (first_pos xs) xs = [0..<length xs]"
proof (induction xs)
  case Nil
  then show ?case by simp
next
  case (Cons x xs)
  have "map (first_pos (x # xs)) xs = map (Suc \<circ> first_pos xs) xs"
    using Cons.prems by (intro map_cong) (auto simp: first_pos_Cons)
  also have "\<dots> = map Suc (map (first_pos xs) xs)"
    by simp
  also have "\<dots> = map Suc [0..<length xs]"
    using Cons by simp
  finally have t: "map (first_pos (x # xs)) xs = map Suc [0..<length xs]" .
  have u: "[0..<length (x # xs)] = 0 # map Suc [0..<length xs]"
    by (simp add: upt_conv_Cons map_Suc_upt del: upt_Suc)
  have z: "first_pos (x # xs) x = 0"
    by (simp add: first_pos_def)
  show ?case
    unfolding u by (simp add: t z)
qed

text \<open>The store after the loop.\<close>

lemma cwi_store:
  "fst (coco_write_images idx refs (s, k, imgs, anns)) =
     (\<lambda>r. if r \<in> set refs \<and> image_id (s r) = None
          then (s r)\<lparr>image_id := Some (idx + int (first_pos refs r))\<rparr>
          else s r)"
proof (induction refs arbitrary: idx s k imgs anns)
  case Nil
  then show ?case by simp
next
  case (Cons r refs)
  show ?case
    by (rule ext)
       (simp add: Let_def split_beta Cons.IH assign_image_id_def first_pos_Cons add.assoc)
qed


lemma cwi_stable:
  "image_id (s r) \<noteq> None \<Longrightarrow> fst (coco_write_images idx refs (s, k, imgs, anns)) r = s r"
  by (simp add: cwi_store)

lemma cwi_store_fields [simp]:
  "annotations (fst (coco_write_images idx refs (s, k, imgs, anns)) r) = annotations (s r)"
  "file_name (fst (coco_write_images idx refs (s, k, imgs, anns)) r) = file_name (s r)"
  "width (fst (coco_write_images idx refs (s, k, imgs, anns)) r) = width (s r)"
  "height (fst (coco_write_images idx refs (s, k, imgs, anns)) r) = height (s r)"
  by (simp_all add: cwi_store)

lemma assign_fields [simp]:
  "annotations (assign_image_id idx r s x) = annotations (s x)"
  "file_name (assign_image_id idx r s x) = file_name (s x)"
  "width (assign_image_id idx r s x) = width (s x)"
  "height (assign_image_id idx r s x) = height (s x)"
  by (simp_all add: assign_image_id_def)

lemma assign_has_id: "image_id (assign_image_id idx r s r) \<noteq> None"
  by (simp add: assign_image_id_def)

lemma cwi_counter:
  "fst (snd (coco_write_images idx refs (s, k, imgs, anns))) =
     k + int (length (concat (map (\<lambda>r. annotations (s r)) refs)))"
proof (induction refs arbitrary: idx s k imgs anns)
  case Nil
  then show ?case by simp
next
  case (Cons r refs)
  show ?case
    by (simp add: Let_def split_beta Cons.IH cwa_counter)
qed

lemma map_upt_add:
  "map f [0..<m + n] = map f [0..<m] @ map (\<lambda>j. f (m + j)) [0..<n]"
  by (induction n) simp_all

lemma cwi_ann_ids:
  "map ca_id (snd (snd (snd (coco_write_images idx refs (s, k, imgs, anns))))) =
     map ca_id anns
       @ map (\<lambda>j. k + int j) [0..<length (concat (map (\<lambda>r. annotations (s r)) refs))]"
proof (induction refs arbitrary: idx s k imgs anns)
  case Nil
  then show ?case by simp
next
  case (Cons r refs)
  show ?case
    by (simp add: Let_def split_beta Cons.IH cwa_counter cwa_ids map_upt_add add.assoc)
qed

lemma cwi_ann_fields:
  "map dict_fields (snd (snd (snd (coco_write_images idx refs (s, k, imgs, anns))))) =
     map dict_fields anns @ map ann_fields (concat (map (\<lambda>r. annotations (s r)) refs))"
proof (induction refs arbitrary: idx s k imgs anns)
  case Nil
  then show ?case by simp
next
  case (Cons r refs)
  show ?case
    by (simp add: Let_def split_beta Cons.IH cwa_fields)
qed

text \<open>What is emitted for an image is what the store holds for it in the end.\<close>

lemma cwi_img_dicts:
  "fst (snd (snd (coco_write_images idx refs (s, k, imgs, anns)))) =
     imgs @ map (\<lambda>r. img_dict (fst (coco_write_images idx refs (s, k, imgs, anns)) r)) refs"
proof (induction refs arbitrary: idx s k imgs anns)
  case Nil
  then show ?case by simp
next
  case (Cons r refs)
  let ?s' = "assign_image_id idx r s"
  have keep: "fst (coco_write_images (idx + 1) refs (?s', k', imgs', anns')) r = ?s' r"
    for k' imgs' anns'
    by (rule cwi_stable) (rule assign_has_id)
  show ?case
    by (simp add: Let_def split_beta Cons.IH[of "idx + 1" ?s'] keep)
qed

lemma cwi_ann_image_ids:
  "map ca_image_id (snd (snd (snd (coco_write_images idx refs (s, k, imgs, anns))))) =
     map ca_image_id anns
       @ concat (map (\<lambda>r. replicate (length (annotations (s r)))
                         (image_id (fst (coco_write_images idx refs (s, k, imgs, anns)) r)))
                   refs)"
proof (induction refs arbitrary: idx s k imgs anns)
  case Nil
  then show ?case by simp
next
  case (Cons r refs)
  let ?s' = "assign_image_id idx r s"
  have keep: "fst (coco_write_images (idx + 1) refs (?s', k', imgs', anns')) r = ?s' r"
    for k' imgs' anns'
    by (rule cwi_stable) (rule assign_has_id)
  show ?case
    by (simp add: Let_def split_beta Cons.IH[of "idx + 1" ?s'] keep cwa_image_id)
qed

lemma COCO_store_after:
  "fst (COCOWriter_write s ds) =
     (\<lambda>r. if r \<in> set (images ds) \<and> image_id (s r) = None
          then (s r)\<lparr>image_id := id_after s (images ds) r\<rparr>
          else s r)"
proof -
  have "fst (COCOWriter_write s ds) = fst (coco_write_images 1 (images ds) (s, 1, [], []))"
    by (simp add: COCOWriter_write_def split_beta)
  then show ?thesis
    by (simp add: cwi_store id_after_def cong: if_cong)
qed

lemma id_after_final:
  "r \<in> set (images ds) \<Longrightarrow> image_id (fst (COCOWriter_write s ds) r) = id_after s (images ds) r"
  by (cases "image_id (s r)") (simp_all add: COCO_store_after id_after_def)

lemma YOLO_store: "fst (yolo_write_images stem refs (s, files)) = s"
  by (induction refs arbitrary: files) (simp_all split: sum.split)

lemma VOC_store: "fst (voc_write_images stem refs (s, files)) = s"
  by (induction refs arbitrary: files) (simp_all split: sum.split)

lemma pair_with_zip: "map (\<lambda>x. (f x, x)) xs = zip (map f xs) xs"
  by (induction xs) simp_all

lemma id_after_distinct:
  assumes "distinct refs"
  shows "map (id_after s refs) refs = map (id_by_position s) (enumerate 1 refs)"
proof -
  have "map (\<lambda>r. (Suc (first_pos refs r), r)) refs = zip (map (\<lambda>r. Suc (first_pos refs r)) refs) refs"
    by (rule pair_with_zip)
  also have "map (\<lambda>r. Suc (first_pos refs r)) refs = map Suc (map (first_pos refs) refs)"
    by simp
  also have "\<dots> = [1..<Suc (length refs)]"
    using first_pos_distinct[OF assms] by (simp add: map_Suc_upt del: upt_Suc)
  finally have e: "map (\<lambda>r. (Suc (first_pos refs r), r)) refs = enumerate 1 refs"
    by (simp add: enumerate_eq_zip del: upt_Suc)
  have "map (id_after s refs) refs = map (id_by_position s) (map (\<lambda>r. (Suc (first_pos refs r), r)) refs)"
    by (simp add: id_after_def id_by_position_def add.commute split: option.split)
  then show ?thesis
    by (simp only: e)
qed

text \<open>
  C6 (as stated). For every dataset the COCO writer gives each image without an id its
  1-based position in \<open>dataset.images\<close> as id. This fails when the list holds one image
  object twice: the first visit assigns 1, the second visit finds the id present, and both
  entries are emitted with id 1 where the second position is 2.
\<close>

theorem COCOWriter_shared_image_counterexample:
  "map (\<lambda>r. image_id (blank_store r)) [0, 0] = [None, None]
   \<and> map (id_by_position blank_store) (enumerate 1 [0, 0]) = [Some 1, Some 2]
   \<and> map ci_id (cd_images (snd (COCOWriter_write blank_store
         \<lparr>images = [0, 0], categories = [], info = []\<rparr>))) = [Some 1, Some 1]"
  by (simp add: COCOWriter_write_def assign_image_id_def blank_store_def new_Image_def Let_def
      id_by_position_def img_dict_def)

text \<open>
  C6 (amended). The COCO writer emits for each image the id it already has, or else the
  1-based position of its first occurrence in \<open>dataset.images\<close>, which is its own
  position when no image object occurs twice; the annotation entries are numbered
  1, 2, 3, ... across all images in order; each entry carries the category id, the box as
  \<open>[x_min, y_min, x_max - x_min, y_max - y_min]\<close>, the area, the crowd flag and an empty
  segmentation list, and the id emitted for its image.
\<close>

theorem COCOWriter_write_ids:
  "map ci_id (cd_images (snd (COCOWriter_write s ds))) = map (id_after s (images ds)) (images ds)
   \<and> (distinct (images ds) \<longrightarrow>
        map ci_id (cd_images (snd (COCOWriter_write s ds))) =
          map (id_by_position s) (enumerate 1 (images ds)))
   \<and> map ca_id (cd_annotations (snd (COCOWriter_write s ds))) =
       map int [1..<Suc (length (concat (map (\<lambda>r. annotations (s r)) (images ds))))]
   \<and> map dict_fields (cd_annotations (snd (COCOWriter_write s ds))) =
       map ann_fields (concat (map (\<lambda>r. annotations (s r)) (images ds)))
   \<and> map ca_image_id (cd_annotations (snd (COCOWriter_write s ds))) =
       concat (map (\<lambda>r. replicate (length (annotations (s r))) (id_after s (images ds) r))
                 (images ds))"
proof -
  let ?run = "coco_write_images 1 (images ds) (s, 1, [], [])"
  have f: "fst (COCOWriter_write s ds) = fst ?run"
    by (simp add: COCOWriter_write_def split_beta)
  have fin: "image_id (fst ?run r) = id_after s (images ds) r" if "r \<in> set (images ds)" for r
    using id_after_final[OF that, of s] f by simp
  have a: "map ci_id (cd_images (snd (COCOWriter_write s ds))) =
      map (id_after s (images ds)) (images ds)"
    using cwi_img_dicts[of 1 "images ds" s 1 "[]" "[]"] fin
    by (simp add: COCOWriter_write_def split_beta o_def img_dict_def)
  have a': "distinct (images ds) \<longrightarrow>
        map ci_id (cd_images (snd (COCOWriter_write s ds))) =
          map (id_by_position s) (enumerate 1 (images ds))"
    using a id_after_distinct[of "images ds" s] by simp
  have "map (\<lambda>j. 1 + int j) [0..<n] = map int [1..<Suc n]" for n
    by (induction n) simp_all
  then have b: "map ca_id (cd_annotations (snd (COCOWriter_write s ds))) =
       map int [1..<Suc (length (concat (map (\<lambda>r. annotations (s r)) (images ds))))]"
    using cwi_ann_ids[of 1 "images ds" s 1 "[]" "[]"]
    by (simp add: COCOWriter_write_def split_beta del: upt_Suc)
  have c: "map dict_fields (cd_annotations (snd (COCOWriter_write s ds))) =
       map ann_fields (concat (map (\<lambda>r. annotations (s r)) (images ds)))"
    using cwi_ann_fields[of 1 "images ds" s 1 "[]" "[]"]
    by (simp add: COCOWriter_write_def split_beta)
  have d: "map ca_image_id (cd_annotations (snd (COCOWriter_write s ds))) =
       concat (map (\<lambda>r. replicate (length (annotations (s r))) (id_after s (images ds) r))
                 (images ds))"
    using cwi_ann_image_ids[of 1 "images ds" s 1 "[]" "[]"] fin
    by (simp add: COCOWriter_write_def split_beta cong: map_cong)
  show ?thesis
    using a a' b c d by (intro conjI)
qed

theorem COCOWriter_write_ids_witness:
  "distinct (images \<lparr>images = [1, 0 :: ref], categories = [], info = []\<rparr>)
   \<and> map ci_id (cd_images (snd (COCOWriter_write example_store
         \<lparr>images = [1, 0], categories = [], info = []\<rparr>))) = [Some 7, Some 2]
   \<and> map ca_id (cd_annotations (snd (COCOWriter_write example_store
         \<lparr>images = [1, 0], categories = [], info = []\<rparr>))) = [1]
   \<and> map dict_fields (cd_annotations (snd (COCOWriter_write example_store
         \<lparr>images = [1, 0], categories = [], info = []\<rparr>)))
       = [(0, [Fin 10, Fin 20, Fin 40, Fin 60], Some (Fin 2400), 0, [])]
   \<and> map ca_image_id (cd_annotations (snd (COCOWriter_write example_store
         \<lparr>images = [1, 0], categories = [], info = []\<rparr>))) = [Some 2]"
proof -
  let ?ds = "\<lparr>images = [1, 0], categories = [], info = []\<rparr> :: ref Dataset"
  have d: "distinct (images ?ds)"
    by simp
  have e1: "map (id_by_position example_store) (enumerate 1 (images ?ds)) = [Some 7, Some 2]"
    by (simp add: id_by_position_def example_store_def new_Image_def)
  have e2: "concat (map (\<lambda>r. annotations (example_store r)) (images ?ds)) = [example_annotation]"
    by (simp add: example_store_def new_Image_def)
  have e3: "ann_fields example_annotation = (0, [Fin 10, Fin 20, Fin 40, Fin 60], Some (Fin 2400), 0, [])"
    by (simp add: ann_fields_def example_annotation_def new_Annotation_def post_init_def
        to_xywh_def fsub_Fin float_eval)
  have e4: "concat (map (\<lambda>r. replicate (length (annotations (example_store r)))
                (id_after example_store (images ?ds) r)) (images ?ds)) = [Some 2]"
    by (simp add: example_store_def new_Image_def id_after_def first_pos_def)
  note T = COCOWriter_write_ids[of example_store ?ds, unfolded e1 e2 e4 list.map e3]
  from T d show ?thesis
    by (simp add: id_after_def example_store_def new_Image_def first_pos_def)
qed

section \<open>What the writers do to the dataset\<close>

text \<open>
  None of the three writers assigns to the dataset, to one of its lists, to a category
  or to an annotation; the only objects a writer assigns to are images, so what a call
  changes is read off the store it returns.

  C3 (as stated). Every writer leaves the dataset as it found it. This fails for the COCO
  writer: an image without an id has one afterwards.
\<close>

theorem COCOWriter_write_mutates_counterexample:
  "image_id (blank_store 0) = None
   \<and> image_id (fst (COCOWriter_write blank_store \<lparr>images = [0], categories = [], info = []\<rparr>) 0)
       = Some 1
   \<and> fst (COCOWriter_write blank_store \<lparr>images = [0], categories = [], info = []\<rparr>) \<noteq> blank_store"
proof -
  have a: "image_id (blank_store 0) = None"
    by (simp add: blank_store_def new_Image_def)
  have b: "image_id (fst (COCOWriter_write blank_store \<lparr>images = [0], categories = [], info = []\<rparr>) 0)
       = Some 1"
    by (simp add: COCOWriter_write_def assign_image_id_def blank_store_def new_Image_def Let_def)
  from a b show ?thesis
    by (metis option.distinct(1))
qed

text \<open>
  C3 (amended). The YOLO and Pascal VOC writers leave every image as it is. The COCO
  writer changes nothing but the field \<open>image_id\<close> of those images of the dataset that
  lack an id: it becomes the 1-based position of the first occurrence of the image in
  \<open>dataset.images\<close>. Every other field of every image is left as it is.
\<close>

theorem writers_frame:
  "fst (YOLOWriter_write stem s ds) = s
   \<and> fst (PascalVOCWriter_write stem s ds) = s
   \<and> fst (COCOWriter_write s ds) =
       (\<lambda>r. if r \<in> set (images ds) \<and> image_id (s r) = None
            then (s r)\<lparr>image_id := id_after s (images ds) r\<rparr>
            else s r)"
proof -
  have y: "fst (YOLOWriter_write stem s ds) = s"
    using YOLO_store[of stem "images ds" s "[]"]
    by (simp add: YOLOWriter_write_def Let_def split_beta)
  have v: "fst (PascalVOCWriter_write stem s ds) = s"
    by (simp add: PascalVOCWriter_write_def VOC_store)
  show ?thesis
    using y v COCO_store_after[of s ds] by (intro conjI)
qed

section \<open>Properties of the converter\<close>

lemma unsupported_message_eq:
  "unsupported_message format_type =
     ''Unsupported format: '' @ format_type @ ''. Supported formats: ['coco', 'yolo', 'voc']''"
  by (simp add: unsupported_message_def format_keys_def quoted_def)

lemma message_mentions:
  "sublist format_type (unsupported_message format_type)"
  "sublist ''coco'' (unsupported_message format_type)"
  "sublist ''yolo'' (unsupported_message format_type)"
  "sublist ''voc'' (unsupported_message format_type)"
proof -
  let ?p = "''Unsupported format: '' @ format_type @ ''. Supported formats: [''"
  show "sublist format_type (unsupported_message format_type)"
    unfolding unsupported_message_def by (rule sublist_appendI)
  have "unsupported_message format_type =
      (?p @ [CHR 0x27]) @ ''coco'' @ (CHR 0x27 # '', '' @ quoted ''yolo'' @ '', '' @ quoted ''voc'' @ '']'')"
    by (simp add: unsupported_message_def format_keys_def quoted_def)
  then show "sublist ''coco'' (unsupported_message format_type)"
    by (simp only: sublist_appendI)
  have "unsupported_message format_type =
      (?p @ quoted ''coco'' @ '', '' @ [CHR 0x27]) @ ''yolo'' @ (CHR 0x27 # '', '' @ quoted ''voc'' @ '']'')"
    by (simp add: unsupported_message_def format_keys_def quoted_def)
  then show "sublist ''yolo'' (unsupported_message format_type)"
    by (simp only: sublist_appendI)
  have "unsupported_message format_type =
      (?p @ quoted ''coco'' @ '', '' @ quoted ''yolo'' @ '', '' @ [CHR 0x27]) @ ''voc'' @ (CHR 0x27 # '']'')"
    by (simp add: unsupported_message_def format_keys_def quoted_def)
  then show "sublist ''voc'' (unsupported_message format_type)"
    by (simp only: sublist_appendI)
qed

text \<open>
  C7. For a format identifier other than "coco", "yolo" and "voc", \<open>Converter.read\<close> and
  \<open>Converter.write\<close> raise a \<open>ValueError\<close> whose message contains the identifier and
  lists the three valid ones; no reader and no writer is called: the result does not
  depend on them, and the world is left as it was.
\<close>

theorem Converter_unsupported_format:
  assumes "format_type \<notin> {''coco'', ''yolo'', ''voc''}"
  shows "Converter_read rs format_type source_path kwargs world =
           (Inl (ValueError (unsupported_message format_type)), world)
       \<and> Converter_write ws format_type dataset target_path kwargs world =
           (Some (ValueError (unsupported_message format_type)), world)
       \<and> unsupported_message format_type =
           ''Unsupported format: '' @ format_type @ ''. Supported formats: ['coco', 'yolo', 'voc']''
       \<and> sublist format_type (unsupported_message format_type)
       \<and> sublist ''coco'' (unsupported_message format_type)
       \<and> sublist ''yolo'' (unsupported_message format_type)
       \<and> sublist ''voc'' (unsupported_message format_type)"
proof -
  have r: "Converter_read rs format_type source_path kwargs world =
           (Inl (ValueError (unsupported_message format_type)), world)"
    using assms by (simp add: Converter_read_def format_keys_def)
  have w: "Converter_write ws format_type dataset target_path kwargs world =
           (Some (ValueError (unsupported_message format_type)), world)"
    using assms by (simp add: Converter_write_def format_keys_def)
  show ?thesis
    using r w unsupported_message_eq[of format_type] message_mentions[of format_type]
    by (intro conjI)
qed

theorem Converter_unsupported_format_witness:
  "''csv'' \<notin> {''coco'', ''yolo'', ''voc''}
   \<and> Converter_read
        \<lparr>coco_reader = \<lambda>p w. (Inr (0 :: nat), Suc w),
         yolo_reader = \<lambda>p i c e w. (Inr 0, Suc w),
         voc_reader = \<lambda>p w. (Inr 0, Suc w)\<rparr>
        ''csv'' ''in.json'' Map.empty (0 :: nat)
       = (Inl (ValueError ''Unsupported format: csv. Supported formats: ['coco', 'yolo', 'voc']''), 0)
   \<and> Converter_write
        \<lparr>coco_writer = \<lambda>d p w. (None, Suc w),
         yolo_writer = \<lambda>d p c w. (None, Suc w),
         voc_writer = \<lambda>d p w. (None, Suc w),
         default_classes_file = \<lambda>p. p\<rparr>
        ''csv'' (0 :: nat) ''out'' Map.empty (0 :: nat)
       = (Some (ValueError ''Unsupported format: csv. Supported formats: ['coco', 'yolo', 'voc']''), 0)"
proof -
  have h: "''csv'' \<notin> {''coco'', ''yolo'', ''voc''}"
    by simp
  let ?rs = "\<lparr>coco_reader = \<lambda>p w. (Inr (0 :: nat), Suc w),
         yolo_reader = \<lambda>p i c e w. (Inr 0, Suc w),
         voc_reader = \<lambda>p w. (Inr 0, Suc w)\<rparr> :: (nat, nat) readers"
  let ?ws = "\<lparr>coco_writer = \<lambda>d p w. (None, Suc w),
         yolo_writer = \<lambda>d p c w. (None, Suc w),
         voc_writer = \<lambda>d p w. (None, Suc w),
         default_classes_file = \<lambda>p. p\<rparr> :: (nat, nat) writers"
  show ?thesis
    using Converter_unsupported_format[OF h, where rs = ?rs and source_path = "''in.json''" and kwargs = Map.empty
        and ws = ?ws and dataset = 0 and target_path = "''out''" and world = 0] h
    by simp
qed

section \<open>Properties of the Pascal VOC reader\<close>

lemmas parse_eval =
  py_int_def py_float_def unsigned_float_def dec_number_def dec_mantissa_def dec_int_def
  dec_nat_def str_strip_def is_space_def is_digit_def digit_val_def lower_def pow10_def















section \<open>Properties of the YOLO reader\<close>

lemma str_split_Nil [simp]: "str_split [] = []"
  by (simp add: str_split.simps)

lemma read_line_skip:
  "\<not> five_tokens line \<Longrightarrow> yolo_read_line io fo cn w h line = Inr None"
  by (simp add: yolo_read_line_def five_tokens_def Let_def)

lemma add_annotation_fields [simp]:
  "width (add_annotation img a) = width img"
  "height (add_annotation img a) = height img"
  "file_name (add_annotation img a) = file_name img"
  "image_id (add_annotation img a) = image_id img"
  "annotations (add_annotation img a) = annotations img @ [a]"
  by (simp_all add: add_annotation_def)

lemma read_lines_filter:
  "yolo_read_lines io fo cn lines img = yolo_read_lines io fo cn (filter five_tokens lines) img"
proof (induction lines arbitrary: img)
  case Nil
  then show ?case by simp
next
  case (Cons l ls)
  show ?case
  proof (cases "five_tokens l")
    case True
    then show ?thesis
      using Cons.IH by (simp split: sum.split option.split)
  next
    case False
    then show ?thesis
      using Cons.IH by (simp add: read_line_skip)
  qed
qed

lemma read_lines_ok:
  assumes "\<forall>l \<in> set lines. \<not> isl (yolo_read_line io fo cn (width img) (height img) l)"
  shows "yolo_read_lines io fo cn lines img =
     Inr (img\<lparr>annotations := annotations img
              @ List.map_filter (line_annotation io fo cn (width img) (height img)) lines\<rparr>)"
  using assms
proof (induction lines arbitrary: img)
  case Nil
  then show ?case by (simp add: map_filter_simps)
next
  case (Cons l ls)
  show ?case
  proof (cases "yolo_read_line io fo cn (width img) (height img) l")
    case (Inl e)
    with Cons.prems show ?thesis by simp
  next
    case (Inr r)
    show ?thesis
    proof (cases r)
      case None
      with Inr Cons show ?thesis
        by (simp add: map_filter_simps line_annotation_def)
    next
      case (Some a)
      have "\<forall>l \<in> set ls. \<not> isl (yolo_read_line io fo cn (width (add_annotation img a))
                (height (add_annotation img a)) l)"
        using Cons.prems by simp
      from Cons.IH[OF this] Some Inr show ?thesis
        by (simp add: map_filter_simps line_annotation_def add_annotation_def)
    qed
  qed
qed

lemma line_annotation_Some:
  "five_tokens l \<Longrightarrow> \<not> isl (yolo_read_line io fo cn w h l)
     \<Longrightarrow> line_annotation io fo cn w h l \<noteq> None"
  by (auto simp: line_annotation_def yolo_read_line_def five_tokens_def Let_def bind_err_def
      split: sum.splits if_splits)

lemma line_annotation_None:
  "\<not> five_tokens l \<Longrightarrow> line_annotation io fo cn w h l = None"
  by (simp add: line_annotation_def read_line_skip)

lemma count_annotations:
  assumes "\<forall>l \<in> set lines. \<not> isl (yolo_read_line io fo cn w h l)"
  shows "length (List.map_filter (line_annotation io fo cn w h) lines)
       = length (filter five_tokens lines)"
  using assms
proof (induction lines)
  case Nil
  then show ?case by (simp add: map_filter_simps)
next
  case (Cons l ls)
  then show ?case
    using line_annotation_Some[of l io fo cn w h] line_annotation_None[of l io fo cn w h]
    by (cases "five_tokens l") (auto simp: map_filter_simps split: option.splits)
qed

text \<open>
  C5. A line of a label file that does not split into exactly five tokens is skipped: the
  reader returns what it returns for the file without these lines, so such a line never
  ends the reading. When no five-token line raises, the image gets exactly one
  annotation for each five-token line, in the order of the lines.
\<close>

theorem YOLOReader_skips_short_lines:
  "yolo_read_lines io fo cn lines img = yolo_read_lines io fo cn (filter five_tokens lines) img
   \<and> ((\<forall>l \<in> set lines. five_tokens l \<longrightarrow> \<not> isl (yolo_read_line io fo cn (width img) (height img) l))
        \<longrightarrow> yolo_read_lines io fo cn lines img =
             Inr (img\<lparr>annotations := annotations img
                      @ List.map_filter (line_annotation io fo cn (width img) (height img)) lines\<rparr>)
          \<and> length (List.map_filter (line_annotation io fo cn (width img) (height img)) lines)
             = length (filter five_tokens lines))"
proof -
  have "\<forall>l \<in> set lines. \<not> isl (yolo_read_line io fo cn (width img) (height img) l)"
    if "\<forall>l \<in> set lines. five_tokens l \<longrightarrow> \<not> isl (yolo_read_line io fo cn (width img) (height img) l)"
    using that read_line_skip[of _ io fo cn "width img" "height img"] by (metis sum.disc(2))
  then show ?thesis
    using read_lines_filter[of io fo cn lines img] read_lines_ok[of lines io fo cn img]
      count_annotations[of lines io fo cn "width img" "height img"]
    by blast
qed

lemma read_lines_error:
  "l \<in> set lines \<Longrightarrow> isl (yolo_read_line io fo cn (width img) (height img) l)
     \<Longrightarrow> isl (yolo_read_lines io fo cn lines img)"
  by (induction lines arbitrary: img) (auto split: sum.splits option.splits)

lemma read_line_bad_token:
  assumes "str_split (str_strip line) = [t0, t1, t2, t3, t4]"
    and "isl (io t0) \<or> isl (fo t1) \<or> isl (fo t2) \<or> isl (fo t3) \<or> isl (fo t4)"
  shows "isl (yolo_read_line io fo cn w h line)"
proof -
  have "str_strip line \<noteq> []"
    using assms(1) str_split_Nil by auto
  then show ?thesis
    using assms
    by (auto simp: yolo_read_line_def Let_def bind_err_def split: sum.splits)
qed

text \<open>
  C9. A line with exactly five tokens whose first token \<open>int\<close> rejects, or one of whose
  other tokens \<open>float\<close> rejects, makes the reader raise: the line raises, the label file
  raises, and so does \<open>YOLOReader.read\<close> for a directory whose first label file has an
  image and contains the line.
\<close>

theorem YOLOReader_raises_on_bad_number:
  assumes "find_image exists stem image_ext = Some image_name"
    and "image_size image_name = Inr (w, h)"
    and "line \<in> set lines"
    and "str_split (str_strip line) = [t0, t1, t2, t3, t4]"
    and "isl (io t0) \<or> isl (fo t1) \<or> isl (fo t2) \<or> isl (fo t3) \<or> isl (fo t4)"
  shows "isl (yolo_read_line io fo cn w h line)
       \<and> isl (yolo_read_lines io fo cn lines (new_Image image_name w h))
       \<and> isl (YOLOReader_read io fo exists image_size classes_lines ((stem, lines) # rest) image_ext)"
proof -
  have a: "isl (yolo_read_line io fo cn w h line)" for cn
    using assms(4,5) by (rule read_line_bad_token)
  have b: "isl (yolo_read_lines io fo cn lines (new_Image image_name w h))" for cn
    using read_lines_error[OF assms(3), of io fo cn "new_Image image_name w h"] a
    by (simp add: new_Image_def)
  let ?cn = "map str_strip (filter (\<lambda>line. str_strip line \<noteq> []) classes_lines)"
  obtain e where "yolo_read_lines io fo ?cn lines (new_Image image_name w h) = Inl e"
    using b[of ?cn] by (cases "yolo_read_lines io fo ?cn lines (new_Image image_name w h)") auto
  then have "isl (YOLOReader_read io fo exists image_size classes_lines ((stem, lines) # rest) image_ext)"
    using assms(1,2) by (simp add: YOLOReader_read_def Let_def)
  then show ?thesis
    using a b by blast
qed


subsection \<open>The readers on the examples\<close>

lemma tok:
  "str_split (str_strip ''-1 0.3 0.25 0.4 0.3'') = [''-1'', ''0.3'', ''0.25'', ''0.4'', ''0.3'']"
  "str_split (str_strip ''-3 0.3 0.25 0.4 0.3'') = [''-3'', ''0.3'', ''0.25'', ''0.4'', ''0.3'']"
  "str_split (str_strip ''x 0.3 0.25 0.4 0.3'') = [''x'', ''0.3'', ''0.25'', ''0.4'', ''0.3'']"
  "str_split (str_strip ''0 0.3 abc 0.4 0.3'') = [''0'', ''0.3'', ''abc'', ''0.4'', ''0.3'']"
  "str_split (str_strip ''0 0.3 0.25 0.4 0.3'') = [''0'', ''0.3'', ''0.25'', ''0.4'', ''0.3'']"
  "str_split (str_strip ''1 0.5 0.5 0.2'') = [''1'', ''0.5'', ''0.5'', ''0.2'']"
  "str_split (str_strip '''') = []"
  "str_split (str_strip ''1 0.5 0.5 1 1'') = [''1'', ''0.5'', ''0.5'', ''1'', ''1'']"
  by (simp_all add: str_strip_def is_space_def str_split.simps)

lemma num:
  "py_int ''-1'' = Inr (- 1)" "py_int ''-3'' = Inr (- 3)" "py_int ''0'' = Inr 0" "py_int ''1'' = Inr 1"
  "isl (py_int ''x'')" "isl (py_float ''abc'')"
  "py_float ''0.3'' = Inr (fl (3 / 10))" "py_float ''0.25'' = Inr (fl (1 / 4))"
  "py_float ''0.4'' = Inr (fl (4 / 10))" "py_float ''0.5'' = Inr (fl (1 / 2))"
  "py_float ''1'' = Inr (fl 1)"
  by (simp_all add: parse_eval)
lemmas yolo_eval =
  from_yolo_def fmul_int_def fdiv_int_def float_of_int_def bind_err_def fsub_def

lemma example_from_yolo:
  "from_yolo (fl (3 / 10)) (fl (1 / 4)) (fl (4 / 10)) (fl (3 / 10)) 100 200
     = Inr \<lparr>x_min = Fin 10, y_min = Fin 20, x_max = Fin 50, y_max = Fin 80\<rparr>"
  by (simp add: yolo_eval float_eval)

lemma example_from_yolo2:
  "from_yolo (fl (1 / 2)) (fl (1 / 2)) (fl 1) (fl 1) 100 200
     = Inr \<lparr>x_min = Fin 0, y_min = Fin 0, x_max = Fin 100, y_max = Fin 200\<rparr>"
  by (simp add: yolo_eval float_eval)


theorem YOLOReader_raises_on_bad_number_witness:
  "isl (py_int ''x'') \<and> isl (py_float ''abc'')
   \<and> isl (YOLOReader_read py_int py_float (\<lambda>n. n = ''a.jpg'') (\<lambda>n. Inr (100, 200))
          [''cat'', ''dog'']
          [(''a'', [''0 0.3 0.25 0.4 0.3'', ''x 0.3 0.25 0.4 0.3''])] ''.jpg'')
   \<and> isl (YOLOReader_read py_int py_float (\<lambda>n. n = ''a.jpg'') (\<lambda>n. Inr (100, 200))
          [''cat'', ''dog'']
          [(''a'', [''0 0.3 0.25 0.4 0.3'', ''0 0.3 abc 0.4 0.3''])] ''.jpg'')"
proof -
  have fi: "find_image (\<lambda>n. n = ''a.jpg'') ''a'' ''.jpg'' = Some ''a.jpg''"
    by (simp add: find_image_def)
  have sz: "(\<lambda>n :: string. (Inr (100, 200) :: error + int \<times> int)) ''a.jpg'' = Inr (100, 200)"
    by simp
  have m1: "''x 0.3 0.25 0.4 0.3'' \<in> set [''0 0.3 0.25 0.4 0.3'', ''x 0.3 0.25 0.4 0.3'']"
    and m2: "''0 0.3 abc 0.4 0.3'' \<in> set [''0 0.3 0.25 0.4 0.3'', ''0 0.3 abc 0.4 0.3'']"
    by simp_all
  have d1: "isl (py_int ''x'') \<or> isl (py_float ''0.3'') \<or> isl (py_float ''0.25'')
      \<or> isl (py_float ''0.4'') \<or> isl (py_float ''0.3'')"
    using num(5) by simp
  have d2: "isl (py_int ''0'') \<or> isl (py_float ''0.3'') \<or> isl (py_float ''abc'')
      \<or> isl (py_float ''0.4'') \<or> isl (py_float ''0.3'')"
    using num(6) by simp
  from YOLOReader_raises_on_bad_number[where io = py_int and fo = py_float and exists = "\<lambda>n. n = ''a.jpg''"
          and image_size = "\<lambda>n. Inr (100, 200)" and rest = "[]"
          and classes_lines = "[''cat'', ''dog'']", OF fi sz m1 tok(3) d1]
       YOLOReader_raises_on_bad_number[where io = py_int and fo = py_float and exists = "\<lambda>n. n = ''a.jpg''"
          and image_size = "\<lambda>n. Inr (100, 200)" and rest = "[]"
          and classes_lines = "[''cat'', ''dog'']", OF fi sz m2 tok(4) d2]
  show ?thesis
    using num(5,6) by simp
qed

lemma example_lines:
  "five_tokens ''0 0.3 0.25 0.4 0.3''" "\<not> five_tokens ''1 0.5 0.5 0.2''" "\<not> five_tokens ''''"
  "five_tokens ''1 0.5 0.5 1 1''"
  by (simp_all add: five_tokens_def tok)

lemma read_line_ok:
  assumes "str_split (str_strip line) = [t0, t1, t2, t3, t4]"
    and "io t0 = Inr c" and "fo t1 = Inr xc" and "fo t2 = Inr yc" and "fo t3 = Inr wn" and "fo t4 = Inr hn"
    and "from_yolo xc yc wn hn w h = Inr b"
    and "0 \<le> c" and "c < int (length cn)"
  shows "yolo_read_line io fo cn w h line =
           Inr (Some (new_Annotation b c (cn ! nat c) None None None None))"
proof -
  have "str_strip line \<noteq> []"
    using assms(1) str_split_Nil by auto
  then show ?thesis
    using assms
    by (auto simp: yolo_read_line_def Let_def bind_err_def py_index_def)
qed

lemma example_line_1:
  "yolo_read_line py_int py_float [''cat'', ''dog''] 100 200 ''0 0.3 0.25 0.4 0.3'' =
     Inr (Some (new_Annotation \<lparr>x_min = Fin 10, y_min = Fin 20, x_max = Fin 50, y_max = Fin 80\<rparr>
                  0 ''cat'' None None None None))"
  using read_line_ok[where io = py_int and fo = py_float and cn = "[''cat'', ''dog'']",
      OF tok(5) num(3) num(7) num(8) num(9) num(7) example_from_yolo]
  by simp

lemma example_line_4:
  "yolo_read_line py_int py_float [''cat'', ''dog''] 100 200 ''1 0.5 0.5 1 1'' =
     Inr (Some (new_Annotation \<lparr>x_min = Fin 0, y_min = Fin 0, x_max = Fin 100, y_max = Fin 200\<rparr>
                  1 ''dog'' None None None None))"
  using read_line_ok[where io = py_int and fo = py_float and cn = "[''cat'', ''dog'']",
      OF tok(8) num(4) num(10) num(10) num(11) num(11) example_from_yolo2]
  by simp

theorem YOLOReader_skips_short_lines_witness:
  "map_sum id (\<lambda>img. map category_name (annotations img))
        (yolo_read_lines py_int py_float [''cat'', ''dog'']
           [''0 0.3 0.25 0.4 0.3'', ''1 0.5 0.5 0.2'', '''', ''1 0.5 0.5 1 1'']
           (new_Image ''a.jpg'' 100 200))
       = Inr [''cat'', ''dog'']
   \<and> length (filter five_tokens [''0 0.3 0.25 0.4 0.3'', ''1 0.5 0.5 0.2'', '''', ''1 0.5 0.5 1 1'']) = 2"
proof -
  let ?L = "[''0 0.3 0.25 0.4 0.3'', ''1 0.5 0.5 0.2'', '''', ''1 0.5 0.5 1 1'']"
  let ?img = "new_Image ''a.jpg'' 100 200"
  have wh: "width ?img = 100" "height ?img = 200" "annotations ?img = []"
    by (simp_all add: new_Image_def)
  note l4 = example_line_4
  have h: "\<forall>l \<in> set ?L. five_tokens l \<longrightarrow>
      \<not> isl (yolo_read_line py_int py_float [''cat'', ''dog''] (width ?img) (height ?img) l)"
    by (simp add: wh example_lines example_line_1 l4)
  have cn: "category_name (new_Annotation bb c n None None None None) = n" for bb c n
    by (simp add: new_Annotation_def post_init_def split_beta)
  have e: "map category_name
       (List.map_filter (line_annotation py_int py_float [''cat'', ''dog''] (width ?img) (height ?img)) ?L)
      = [''cat'', ''dog'']"
    by (simp add: wh map_filter_simps line_annotation_def example_line_1 l4 cn
        read_line_skip example_lines)
  have n: "length (filter five_tokens ?L) = 2"
    by (simp add: example_lines)
  from YOLOReader_skips_short_lines[of py_int py_float "[''cat'', ''dog'']" ?L ?img] h
  have "yolo_read_lines py_int py_float [''cat'', ''dog''] ?L ?img =
          Inr (?img\<lparr>annotations := annotations ?img
              @ List.map_filter (line_annotation py_int py_float [''cat'', ''dog''] (width ?img) (height ?img)) ?L\<rparr>)"
    by blast
  then show ?thesis
    using e n wh(3) by simp
qed

end
